theory Spec2Isabelle
  imports Complex_Main "HOL-Library.Multiset" "HOL-Library.Product_Lexorder" "HOL-Library.Sublist"
begin

section \<open>Python built-ins used by the pipeline\<close>

text \<open>
  Every record of the source also carries \<^verbatim>\<open>schema_version\<close>, always the constant
  of config.py and never read by the pipeline; the records below leave it out.
  Strings are \<^typ>\<open>string\<close> (lists of characters) over the ASCII range. Python floats are
  modelled by \<^typ>\<open>real\<close>: every score is an exact real number, so rounding of the
  binary representation is outside the model. Python integers are \<^typ>\<open>int\<close>; lengths
  are \<^typ>\<open>nat\<close>.
\<close>

text \<open>\<^verbatim>\<open>str.lower()\<close> on ASCII: the letters A..Z (codes 65..90) move to a..z.\<close>

definition lower_char :: "char \<Rightarrow> char" where
  "lower_char c =
     (let n = (of_char c :: nat) in if 65 \<le> n \<and> n \<le> 90 then char_of (n + 32) else c)"

definition py_lower :: "string \<Rightarrow> string" where
  "py_lower s = map lower_char s"

text \<open>
  \<^verbatim>\<open>str.isspace()\<close> on ASCII: tab, line feed, vertical tab, form feed, carriage return
  (9..13), the four separators 28..31, and the space (32).
\<close>

definition is_space :: "char \<Rightarrow> bool" where
  "is_space c = (let n = (of_char c :: nat) in (9 \<le> n \<and> n \<le> 13) \<or> (28 \<le> n \<and> n \<le> 32))"

text \<open>\<^verbatim>\<open>str.strip()\<close> with no argument removes leading and trailing whitespace.\<close>

definition py_strip :: "string \<Rightarrow> string" where
  "py_strip s = rev (dropWhile is_space (rev (dropWhile is_space s)))"

text \<open>
  \<^verbatim>\<open>str.split()\<close> with no argument: the maximal runs of non-whitespace characters, in
  order; no empty string is ever produced. The first argument is the word being read.
\<close>

fun split_acc :: "string \<Rightarrow> string \<Rightarrow> string list" where
  "split_acc w [] = (if w = [] then [] else [w])"
| "split_acc w (c # cs) =
     (if is_space c then (if w = [] then split_acc [] cs else w # split_acc [] cs)
      else split_acc (w @ [c]) cs)"

definition py_split :: "string \<Rightarrow> string list" where
  "py_split s = split_acc [] s"

text \<open>\<^verbatim>\<open>sep.join(parts)\<close>.\<close>

fun py_join :: "string \<Rightarrow> string list \<Rightarrow> string" where
  "py_join sep [] = []"
| "py_join sep [x] = x"
| "py_join sep (x # y # ys) = x @ sep @ py_join sep (y # ys)"

text \<open>\<^verbatim>\<open>w in t\<close> on strings: \<open>w\<close> occurs in \<open>t\<close> as a contiguous substring.\<close>

fun py_in :: "string \<Rightarrow> string \<Rightarrow> bool" where
  "py_in w [] = (w = [])"
| "py_in w (c # cs) = (prefix w (c # cs) \<or> py_in w cs)"

text \<open>\<^verbatim>\<open>str(n)\<close> for an integer: its decimal digits, with a minus sign when negative.\<close>

definition digit_char :: "nat \<Rightarrow> char" where
  "digit_char d = char_of (48 + d)"

fun str_nat :: "nat \<Rightarrow> string" where
  "str_nat n = (if n < 10 then [digit_char n] else str_nat (n div 10) @ [digit_char (n mod 10)])"

declare str_nat.simps [simp del]

definition str_int :: "int \<Rightarrow> string" where
  "str_int i = (if i < 0 then CHR ''-'' # str_nat (nat (- i)) else str_nat (nat i))"

text \<open>\<^verbatim>\<open>x or 0\<close> for an optional integer: \<^verbatim>\<open>None\<close> and \<open>0\<close> both give \<open>0\<close>.\<close>

definition or_zero :: "int option \<Rightarrow> int" where
  "or_zero x = (case x of None \<Rightarrow> 0 | Some n \<Rightarrow> n)"

text \<open>\<^verbatim>\<open>x or ''\<close> for an optional string.\<close>

definition or_empty :: "string option \<Rightarrow> string" where
  "or_empty x = (case x of None \<Rightarrow> [] | Some s \<Rightarrow> s)"

section \<open>Configuration (config.py)\<close>

definition SKILLS_WEIGHT :: real where "SKILLS_WEIGHT = 0.4"
definition EXPERIENCE_WEIGHT :: real where "EXPERIENCE_WEIGHT = 0.4"
definition EDUCATION_WEIGHT :: real where "EDUCATION_WEIGHT = 0.2"
definition SCHEMA_VERSION :: string where "SCHEMA_VERSION = ''1.0''"

section \<open>Data model (models/)\<close>

record ExperienceEntry =
  title :: string
  company :: string
  duration_months :: "int option"
  description :: string

record EducationEntry =
  degree :: string
  institution :: string
  year :: "int option"
  field :: "string option"

record ResumeData =
  name :: string
  skills :: "string list"
  experience :: "ExperienceEntry list"
  education :: "EducationEntry list"
  raw_text :: string
  email :: "string option"
  phone :: "string option"

record JobRequirements =
  job_title :: string
  required_skills :: "string list"
  preferred_skills :: "string list"
  min_experience_years :: "int option"
  education_requirements :: "string list"
  responsibilities :: "string list"

record MatchResult =
  resume :: ResumeData
  overall_score :: real
  skills_score :: real
  experience_score :: real
  education_score :: real
  matched_skills :: "string list"
  skill_gaps :: "string list"
  strengths :: "string list"

section \<open>Matcher (agents/matcher.py)\<close>

text \<open>The normal form of a skill, \<^verbatim>\<open>s.lower().strip()\<close>.\<close>

definition normalize :: "string \<Rightarrow> string" where
  "normalize s = py_strip (py_lower s)"

text \<open>\<^verbatim>\<open>MatcherAgent.compute_score\<close>, with the weights the constructor reads from config.\<close>

definition compute_score :: "real \<Rightarrow> real \<Rightarrow> real \<Rightarrow> real" where
  "compute_score skills_sc experience_sc education_sc =
     skills_sc * SKILLS_WEIGHT + experience_sc * EXPERIENCE_WEIGHT
       + education_sc * EDUCATION_WEIGHT"

text \<open>
  \<^verbatim>\<open>MatcherAgent._compute_skills_score\<close>: both skill lists become sets of normal forms;
  the score is the size of their intersection over the size of the required set.
\<close>

definition compute_skills_score :: "string list \<Rightarrow> string list \<Rightarrow> real" where
  "compute_skills_score resume_skills req_skills =
     (if req_skills = [] then 100
      else
        let resume_skills_lower = set (map normalize resume_skills);
            required_skills_lower = set (map normalize req_skills);
            matches = card (resume_skills_lower \<inter> required_skills_lower)
        in min 100 ((real matches / real (card required_skills_lower)) * 100))"

text \<open>
  \<^verbatim>\<open>sum((exp.duration_months or 0) for exp in experience)\<close> and the division by 12
  (Python's true division).
\<close>

definition total_months :: "ExperienceEntry list \<Rightarrow> int" where
  "total_months exps = sum_list (map (\<lambda>e. or_zero (duration_months e)) exps)"

definition total_years :: "ExperienceEntry list \<Rightarrow> real" where
  "total_years exps = real_of_int (total_months exps) / 12"

text \<open>\<^verbatim>\<open>MatcherAgent._compute_experience_score\<close>.\<close>

definition compute_experience_score :: "ExperienceEntry list \<Rightarrow> int option \<Rightarrow> real" where
  "compute_experience_score exps min_years_arg =
     (let min_years = or_zero min_years_arg in
      if min_years \<le> 0 then 100
      else if total_years exps \<ge> real_of_int min_years then 100
      else min 100 ((total_years exps / real_of_int min_years) * 100))"

text \<open>
  \<^verbatim>\<open>MatcherAgent._compute_education_score\<close>. The education entries are flattened to one
  lower-cased text; a requirement counts when any of its words occurs in that text.
\<close>

definition education_line :: "EducationEntry \<Rightarrow> string" where
  "education_line edu =
     py_lower (degree edu @ '' '' @ or_empty (field edu) @ '' '' @ institution edu)"

definition education_text :: "EducationEntry list \<Rightarrow> string" where
  "education_text edus = py_join '' '' (map education_line edus)"

definition requirement_matches :: "string \<Rightarrow> string \<Rightarrow> bool" where
  "requirement_matches text req = list_ex (\<lambda>word. py_in word text) (py_split (py_lower req))"

definition compute_education_score :: "EducationEntry list \<Rightarrow> string list \<Rightarrow> real" where
  "compute_education_score edus reqs =
     (if reqs = [] then 100
      else if edus = [] then 0
      else
        let matches = length (filter (requirement_matches (education_text edus)) reqs)
        in min 100 ((real matches / real (length reqs)) * 100))"

text \<open>
  \<^verbatim>\<open>MatcherAgent._find_matched_skills\<close>. The dict comprehension
  \<^verbatim>\<open>{s.lower().strip(): s for s in resume_skills}\<close> inserts the skills from left to right,
  a later skill replacing an earlier one with the same normal form.
\<close>

definition skill_dict :: "string list \<Rightarrow> (string \<rightharpoonup> string)" where
  "skill_dict resume_skills = foldl (\<lambda>m s. m(normalize s \<mapsto> s)) Map.empty resume_skills"

fun matched_loop :: "(string \<rightharpoonup> string) \<Rightarrow> string list \<Rightarrow> string list \<Rightarrow> string list" where
  "matched_loop d [] matched = matched"
| "matched_loop d (req_skill # rest) matched =
     (case d (normalize req_skill) of
        Some s \<Rightarrow> matched_loop d rest (matched @ [s])
      | None \<Rightarrow> matched_loop d rest matched)"

definition find_matched_skills :: "string list \<Rightarrow> string list \<Rightarrow> string list" where
  "find_matched_skills resume_skills req_skills =
     matched_loop (skill_dict resume_skills) req_skills []"

text \<open>\<^verbatim>\<open>MatcherAgent.identify_gaps\<close>.\<close>

fun gaps_loop :: "string set \<Rightarrow> string list \<Rightarrow> string list \<Rightarrow> string list" where
  "gaps_loop known [] gaps = gaps"
| "gaps_loop known (req_skill # rest) gaps =
     (if normalize req_skill \<notin> known then gaps_loop known rest (gaps @ [req_skill])
      else gaps_loop known rest gaps)"

definition identify_gaps :: "string list \<Rightarrow> string list \<Rightarrow> string list" where
  "identify_gaps resume_skills req_skills =
     gaps_loop (set (map normalize resume_skills)) req_skills []"

text \<open>
  \<^verbatim>\<open>MatcherAgent.identify_strengths\<close>. The format \<^verbatim>\<open>{x:.1f}\<close> of a float is a built-in
  that reads the float's binary representation; it is the parameter \<open>fmt1\<close>.
\<close>

definition identify_strengths :: "(real \<Rightarrow> string) \<Rightarrow> ResumeData \<Rightarrow> JobRequirements \<Rightarrow> string list" where
  "identify_strengths fmt1 res reqs =
     (let matched = find_matched_skills (skills res) (required_skills reqs);
          s1 = (if matched \<noteq> []
                then [''Has '' @ str_nat (length matched) @ '' of ''
                        @ str_nat (length (required_skills reqs)) @ '' required skills'']
                else []);
          min_exp_years = or_zero (min_experience_years reqs);
          s2 = (if min_exp_years > 0 \<and> total_years (experience res) \<ge> real_of_int min_exp_years
                then [''Exceeds experience requirement ('' @ fmt1 (total_years (experience res))
                        @ '' years)'']
                else []);
          preferred_matches = find_matched_skills (skills res) (preferred_skills reqs);
          s3 = (if preferred_matches \<noteq> []
                then [''Has '' @ str_nat (length preferred_matches) @ '' preferred skills'']
                else [])
      in s1 @ s2 @ s3)"

text \<open>\<^verbatim>\<open>MatcherAgent.match_candidate\<close>.\<close>

definition match_candidate :: "(real \<Rightarrow> string) \<Rightarrow> ResumeData \<Rightarrow> JobRequirements \<Rightarrow> MatchResult" where
  "match_candidate fmt1 res reqs =
     (let skills_sc = compute_skills_score (skills res) (required_skills reqs);
          experience_sc = compute_experience_score (experience res) (min_experience_years reqs);
          education_sc = compute_education_score (education res) (education_requirements reqs)
      in \<lparr> resume = res,
           overall_score = compute_score skills_sc experience_sc education_sc,
           skills_score = skills_sc,
           experience_score = experience_sc,
           education_score = education_sc,
           matched_skills = find_matched_skills (skills res) (required_skills reqs),
           skill_gaps = identify_gaps (skills res) (required_skills reqs),
           strengths = identify_strengths fmt1 res reqs \<rparr>)"

section \<open>Ranker (agents/ranker.py)\<close>

record CandidateResult =
  rank :: int
  cand_name :: string
  cand_overall_score :: real
  cand_skills_score :: real
  cand_experience_score :: real
  cand_education_score :: real
  cand_matched_skills :: "string list"
  cand_skill_gaps :: "string list"
  cand_strengths :: "string list"
  explanation :: string

text \<open>\<^verbatim>\<open>RankerAgent._generate_simple_explanation\<close>: the list \<open>parts\<close> grows by appends.\<close>

definition generate_simple_explanation :: "(real \<Rightarrow> string) \<Rightarrow> MatchResult \<Rightarrow> int \<Rightarrow> string" where
  "generate_simple_explanation fmt1 m r =
     (let parts0 = [''Ranked #'' @ str_int r @ '' with '' @ fmt1 (overall_score m) @ ''% match.''];
          parts1 = (if matched_skills m \<noteq> []
                    then parts0 @ [''Has '' @ str_nat (length (matched_skills m)) @ '' matching skills.'']
                    else parts0);
          parts2 = (if skill_gaps m \<noteq> []
                    then parts1 @ [''Missing '' @ str_nat (length (skill_gaps m)) @ '' required skills.'']
                    else parts1);
          parts3 = (if strengths m \<noteq> []
                    then parts2 @ [''Strengths: '' @ py_join '', '' (take 2 (strengths m)) @ ''.'']
                    else parts2)
      in py_join '' '' parts3)"

text \<open>
  \<^verbatim>\<open>RankerAgent.generate_explanation\<close>. The language-model call is the parameter \<open>ai\<close>:
  \<open>ai m r\<close> is the reply text, or \<open>None\<close> when anything inside the \<^verbatim>\<open>try\<close> block
  raises; every exception is caught and answered by the simple explanation.
\<close>

definition generate_explanation ::
  "(MatchResult \<Rightarrow> int \<Rightarrow> string option) \<Rightarrow> (real \<Rightarrow> string) \<Rightarrow> MatchResult \<Rightarrow> int \<Rightarrow> string" where
  "generate_explanation ai fmt1 m r =
     (case ai m r of Some reply \<Rightarrow> py_strip reply | None \<Rightarrow> generate_simple_explanation fmt1 m r)"

text \<open>
  The sort of \<^verbatim>\<open>rank_candidates\<close>: \<^verbatim>\<open>sorted(matches, key=..., reverse=True)\<close>. Python's
  sort is stable, and with \<^verbatim>\<open>reverse=True\<close> it reverses the list, sorts it ascending and
  reverses the result, so that equal keys keep their input order.
\<close>

definition sort_key_of :: "MatchResult \<Rightarrow> real \<times> nat" where
  "sort_key_of m = (overall_score m, length (matched_skills m))"

definition py_sorted_reverse :: "('a \<Rightarrow> 'k::linorder) \<Rightarrow> 'a list \<Rightarrow> 'a list" where
  "py_sorted_reverse key xs = rev (sort_key key (rev xs))"

definition sorted_matches :: "MatchResult list \<Rightarrow> MatchResult list" where
  "sorted_matches matches = py_sorted_reverse sort_key_of matches"

definition make_result :: "MatchResult \<Rightarrow> int \<Rightarrow> string \<Rightarrow> CandidateResult" where
  "make_result m r expl =
     \<lparr> rank = r,
       cand_name = name (resume m),
       cand_overall_score = overall_score m,
       cand_skills_score = skills_score m,
       cand_experience_score = experience_score m,
       cand_education_score = education_score m,
       cand_matched_skills = matched_skills m,
       cand_skill_gaps = skill_gaps m,
       cand_strengths = strengths m,
       explanation = expl \<rparr>"

text \<open>The loop over \<^verbatim>\<open>enumerate(sorted_matches, start=1)\<close>; \<open>r\<close> is the running rank.\<close>

fun rank_loop ::
  "(MatchResult \<Rightarrow> int \<Rightarrow> string option) \<Rightarrow> (real \<Rightarrow> string) \<Rightarrow> bool \<Rightarrow> int \<Rightarrow> MatchResult list
     \<Rightarrow> CandidateResult list \<Rightarrow> CandidateResult list" where
  "rank_loop ai fmt1 gen r [] results = results"
| "rank_loop ai fmt1 gen r (m # ms) results =
     (let expl = (if gen then generate_explanation ai fmt1 m r
                  else generate_simple_explanation fmt1 m r)
      in rank_loop ai fmt1 gen (r + 1) ms (results @ [make_result m r expl]))"

text \<open>\<^verbatim>\<open>RankerAgent.rank_candidates\<close>.\<close>

definition rank_candidates ::
  "(MatchResult \<Rightarrow> int \<Rightarrow> string option) \<Rightarrow> (real \<Rightarrow> string) \<Rightarrow> MatchResult list \<Rightarrow> bool
     \<Rightarrow> CandidateResult list" where
  "rank_candidates ai fmt1 matches generate_explanations =
     (if matches = [] then []
      else rank_loop ai fmt1 generate_explanations 1 (sorted_matches matches) [])"

text \<open>
  The deterministic template as the specification words it: the opening sentence, then
  each optional sentence exactly when its list is non-empty, joined by single spaces.
\<close>

definition template_sentences :: "(real \<Rightarrow> string) \<Rightarrow> MatchResult \<Rightarrow> int \<Rightarrow> string list" where
  "template_sentences fmt1 m r =
     [''Ranked #'' @ str_int r @ '' with '' @ fmt1 (overall_score m) @ ''% match.'']
     @ (if matched_skills m = [] then []
        else [''Has '' @ str_nat (length (matched_skills m)) @ '' matching skills.''])
     @ (if skill_gaps m = [] then []
        else [''Missing '' @ str_nat (length (skill_gaps m)) @ '' required skills.''])
     @ (if strengths m = [] then []
        else [''Strengths: '' @ py_join '', '' (take 2 (strengths m)) @ ''.''])"

definition deterministic_template :: "(real \<Rightarrow> string) \<Rightarrow> MatchResult \<Rightarrow> int \<Rightarrow> string" where
  "deterministic_template fmt1 m r = py_join '' '' (template_sentences fmt1 m r)"

section \<open>Runner (runner.py)\<close>

text \<open>
  \<^verbatim>\<open>ProcessingStatus\<close> without its two clock readings (\<^verbatim>\<open>start_time\<close>,
  \<^verbatim>\<open>elapsed_seconds\<close>).
\<close>

record ProcessingStatus =
  current_agent :: string
  processed_count :: int
  total_count :: int
  is_complete :: bool
  error_message :: "string option"

text \<open>
  The state of one run: \<open>status\<close> is the field \<^verbatim>\<open>self._status\<close>; \<open>emitted\<close> lists the
  snapshots handed to \<^verbatim>\<open>on_status_update\<close>, oldest first. The callback itself is
  represented by the flag \<open>cb\<close> (a callback was supplied); it is assumed not to raise.
\<close>

record runner_state =
  status :: "ProcessingStatus option"
  emitted :: "ProcessingStatus list"

definition new_runner :: runner_state where
  "new_runner = \<lparr> status = None, emitted = [] \<rparr>"

definition update_status ::
  "string \<Rightarrow> int \<Rightarrow> int \<Rightarrow> string option \<Rightarrow> bool \<Rightarrow> runner_state \<Rightarrow> ProcessingStatus \<times> runner_state" where
  "update_status agent processed total_n err complete_flag st =
     (let s = \<lparr> current_agent = agent, processed_count = processed, total_count = total_n,
                is_complete = complete_flag, error_message = err \<rparr>
      in (s, st\<lparr>status := Some s\<rparr>))"

definition notify :: "bool \<Rightarrow> ProcessingStatus \<Rightarrow> runner_state \<Rightarrow> runner_state" where
  "notify cb s st = (if cb then st\<lparr>emitted := emitted st @ [s]\<rparr> else st)"

text \<open>\<^verbatim>\<open>notify(self._update_status(...))\<close>, the only way the source uses the two.\<close>

definition report ::
  "bool \<Rightarrow> string \<Rightarrow> int \<Rightarrow> int \<Rightarrow> string option \<Rightarrow> bool \<Rightarrow> runner_state \<Rightarrow> runner_state" where
  "report cb agent processed total_n err complete_flag st =
     (case update_status agent processed total_n err complete_flag st of (s, st') \<Rightarrow> notify cb s st')"

text \<open>Python's truth value of an optional error string: \<^verbatim>\<open>None\<close> and \<^verbatim>\<open>""\<close> are false.\<close>

definition truthy :: "string option \<Rightarrow> bool" where
  "truthy e = (case e of None \<Rightarrow> False | Some s \<Rightarrow> s \<noteq> [])"

text \<open>
  The exception that can leave \<^verbatim>\<open>process\<close>: reading an attribute of \<^verbatim>\<open>None\<close>. The
  argument is the attribute's name; \<open>str_exn\<close> is Python's message for it.
\<close>

datatype exn = AttributeError string

definition str_exn :: "exn \<Rightarrow> string" where
  "str_exn e = (case e of AttributeError a \<Rightarrow>
     [CHR 0x27] @ ''NoneType'' @ [CHR 0x27] @ '' object has no attribute '' @ [CHR 0x27] @ a @ [CHR 0x27])"

text \<open>
  The parser loop. The external parser is the parameter \<open>parse\<close>: \<open>parse i f\<close> is the pair
  \<^verbatim>\<open>(resume_data, error)\<close> it returns for the input \<open>f\<close> at position \<open>i\<close> (from 0).
\<close>

fun parse_loop ::
  "bool \<Rightarrow> (nat \<Rightarrow> 'f \<Rightarrow> ResumeData option \<times> string option) \<Rightarrow> int \<Rightarrow> nat \<Rightarrow> 'f list
     \<Rightarrow> runner_state \<Rightarrow> ResumeData option list \<Rightarrow> string list
     \<Rightarrow> runner_state \<times> ResumeData option list \<times> string list" where
  "parse_loop cb parse total_n i [] st parsed errors = (st, parsed, errors)"
| "parse_loop cb parse total_n i (f # fs) st parsed errors =
     (let st1 = report cb ''Parser'' (int i) total_n None False st in
      case parse i f of (resume_data, error) \<Rightarrow>
        if truthy error
        then parse_loop cb parse total_n (Suc i) fs st1 parsed
               (errors @ [''Resume '' @ str_nat (i + 1) @ '': '' @ or_empty error])
        else parse_loop cb parse total_n (Suc i) fs st1 (parsed @ [resume_data]) errors)"

text \<open>
  The call \<^verbatim>\<open>self.matcher.match_candidate(resume, job_requirements)\<close> on values that may
  be \<^verbatim>\<open>None\<close>: \<^verbatim>\<open>resume.skills\<close> is read first, then
  \<^verbatim>\<open>requirements.required_skills\<close>.
\<close>

definition try_match ::
  "(real \<Rightarrow> string) \<Rightarrow> ResumeData option \<Rightarrow> JobRequirements option \<Rightarrow> exn + MatchResult" where
  "try_match fmt1 r jr =
     (case r of None \<Rightarrow> Inl (AttributeError ''skills'')
      | Some res \<Rightarrow>
          (case jr of None \<Rightarrow> Inl (AttributeError ''required_skills'')
           | Some reqs \<Rightarrow> Inr (match_candidate fmt1 res reqs)))"

text \<open>
  The matcher loop. The handler formats \<^verbatim>\<open>resume.name\<close>; when \<^verbatim>\<open>resume\<close> is
  \<^verbatim>\<open>None\<close> that read raises inside the handler and the exception leaves the run.
\<close>

fun match_loop ::
  "bool \<Rightarrow> (real \<Rightarrow> string) \<Rightarrow> JobRequirements option \<Rightarrow> int \<Rightarrow> nat \<Rightarrow> ResumeData option list
     \<Rightarrow> runner_state \<Rightarrow> MatchResult list \<Rightarrow> string list
     \<Rightarrow> runner_state \<times> (exn + MatchResult list \<times> string list)" where
  "match_loop cb fmt1 jr total_n i [] st matches errors = (st, Inr (matches, errors))"
| "match_loop cb fmt1 jr total_n i (r # rs) st matches errors =
     (let st1 = report cb ''Matcher'' (int i) total_n None False st in
      case try_match fmt1 r jr of
        Inr match_result \<Rightarrow> match_loop cb fmt1 jr total_n (Suc i) rs st1 (matches @ [match_result]) errors
      | Inl e \<Rightarrow>
          (case r of
             None \<Rightarrow> (st1, Inl (AttributeError ''name''))
           | Some res \<Rightarrow>
               match_loop cb fmt1 jr total_n (Suc i) rs st1 matches
                 (errors @ [''Matching '' @ name res @ '': '' @ str_exn e])))"

text \<open>\<^verbatim>\<open>"; ".join(errors) if errors else None\<close>.\<close>

definition error_summary :: "string list \<Rightarrow> string option" where
  "error_summary errors = (if errors \<noteq> [] then Some (py_join ''; '' errors) else None)"

text \<open>
  \<^verbatim>\<open>ResumeScreeningRunner.process\<close>, run on a new runner. The analyzer is the parameter
  \<open>analyze\<close>, returning the pair \<^verbatim>\<open>(job_requirements, error)\<close>. The result is the final
  state and either the exception that left the run or the returned pair
  \<^verbatim>\<open>(results, error)\<close>. \<^verbatim>\<open>rank_candidates\<close> has no raising path here, so the
  \<^verbatim>\<open>except\<close> branch around it (rank again without explanations) is never taken.
\<close>

definition process ::
  "bool \<Rightarrow> (string \<Rightarrow> JobRequirements option \<times> string option)
     \<Rightarrow> (nat \<Rightarrow> 'f \<Rightarrow> ResumeData option \<times> string option)
     \<Rightarrow> (MatchResult \<Rightarrow> int \<Rightarrow> string option) \<Rightarrow> (real \<Rightarrow> string)
     \<Rightarrow> 'f list \<Rightarrow> string \<Rightarrow> bool
     \<Rightarrow> runner_state \<times> (exn + CandidateResult list \<times> string option)" where
  "process cb analyze parse ai fmt1 pdf_files job_description generate_explanations =
     (let total_resumes = int (length pdf_files);
          st1 = report cb ''Analyzer'' 0 total_resumes None False new_runner
      in case analyze job_description of (job_requirements, error) \<Rightarrow>
        if truthy error
        then (report cb ''Analyzer'' 0 total_resumes error False st1,
              Inr ([], Some (''Failed to analyze job description: '' @ or_empty error)))
        else
          case parse_loop cb parse total_resumes 0 pdf_files st1 [] [] of
            (st2, parsed_resumes, errors) \<Rightarrow>
              if parsed_resumes = []
              then (report cb ''Parser'' total_resumes total_resumes
                      (Some ''No resumes could be parsed'') False st2,
                    Inr ([], Some ''No resumes could be parsed''))
              else
                case match_loop cb fmt1 job_requirements (int (length parsed_resumes)) 0
                       parsed_resumes st2 [] errors of
                  (st3, Inl e) \<Rightarrow> (st3, Inl e)
                | (st3, Inr (matches, errors')) \<Rightarrow>
                    if matches = []
                    then (report cb ''Matcher'' (int (length parsed_resumes))
                            (int (length parsed_resumes))
                            (Some ''No candidates could be matched'') False st3,
                          Inr ([], Some ''No candidates could be matched''))
                    else
                      let st4 = report cb ''Ranker'' 0 (int (length matches)) None False st3;
                          results = rank_candidates ai fmt1 matches generate_explanations;
                          st5 = report cb ''Complete'' (int (length results))
                                  (int (length results)) None True st4
                      in (st5, Inr (results, error_summary errors')))"

text \<open>
  \<^verbatim>\<open>ResumeScreeningRunner.process_from_text\<close> repeats the body of \<^verbatim>\<open>process\<close> line for
  line, calling \<^verbatim>\<open>parse_resume_from_text\<close> where \<^verbatim>\<open>process\<close> calls
  \<^verbatim>\<open>parse_resume\<close>; \<open>parse_text\<close> is that parser.
\<close>

definition process_from_text ::
  "bool \<Rightarrow> (string \<Rightarrow> JobRequirements option \<times> string option)
     \<Rightarrow> (nat \<Rightarrow> string \<Rightarrow> ResumeData option \<times> string option)
     \<Rightarrow> (MatchResult \<Rightarrow> int \<Rightarrow> string option) \<Rightarrow> (real \<Rightarrow> string)
     \<Rightarrow> string list \<Rightarrow> string \<Rightarrow> bool
     \<Rightarrow> runner_state \<times> (exn + CandidateResult list \<times> string option)" where
  "process_from_text cb analyze parse_text ai fmt1 resume_texts job_description generate_explanations =
     process cb analyze parse_text ai fmt1 resume_texts job_description generate_explanations"

section \<open>Auxiliary notions for the statements\<close>

text \<open>A score lies in the closed interval from 0 to 100.\<close>

definition in_range :: "real \<Rightarrow> bool" where
  "in_range x = (0 \<le> x \<and> x \<le> 100)"

text \<open>
  Sample data for the concrete instances below. \<open>example_fmt1\<close> is a sample formatter
  (one decimal digit, truncated) standing in for Python's \<^verbatim>\<open>.1f\<close>; every general
  statement holds for an arbitrary formatter.
\<close>

definition example_fmt1 :: "real \<Rightarrow> string" where
  "example_fmt1 x = str_int \<lfloor>x\<rfloor> @ ''.'' @ str_nat (nat (\<lfloor>x * 10\<rfloor> mod 10))"

definition example_resume :: ResumeData where
  "example_resume =
     \<lparr> name = ''Ada'', skills = [''python''],
       experience = [\<lparr> title = ''Developer'', company = ''Acme'', duration_months = Some 6,
                       description = ''Backend'' \<rparr>,
                     \<lparr> title = ''Intern'', company = ''Acme'', duration_months = None,
                       description = ''Summer'' \<rparr>],
       education = [], raw_text = ''Ada, python'', email = None, phone = None \<rparr>"

definition example_job :: JobRequirements where
  "example_job =
     \<lparr> job_title = ''Engineer'', required_skills = [''Python'', ''SQL''],
       preferred_skills = [], min_experience_years = Some 2,
       education_requirements = [''Bachelor degree''], responsibilities = [] \<rparr>"

text \<open>The sort key as it reads on a ranked result.\<close>

definition result_key :: "CandidateResult \<Rightarrow> real \<times> nat" where
  "result_key c = (cand_overall_score c, length (cand_matched_skills c))"

text \<open>
  A ranked result with its rank and explanation blanked, and the same projection taken
  straight from a match: what a result carries over from the match it was built from.
\<close>

definition unranked :: "CandidateResult \<Rightarrow> CandidateResult" where
  "unranked c = c\<lparr>rank := 0, explanation := []\<rparr>"

definition candidate_of :: "MatchResult \<Rightarrow> CandidateResult" where
  "candidate_of m = make_result m 0 []"

text \<open>Sample data with repeated skills.\<close>

definition example_resume_dup :: ResumeData where
  "example_resume_dup = example_resume\<lparr>skills := [''Python'', ''PYTHON '']\<rparr>"

definition example_job_dup :: JobRequirements where
  "example_job_dup = example_job\<lparr>required_skills := [''python'', ''python'', ''Go'']\<rparr>"

text \<open>
  The snapshot \<^verbatim>\<open>_update_status\<close> builds from its arguments, and what the parser loop
  leaves behind for inputs numbered from \<open>i\<close>: the error lines of the inputs whose
  error is true (one-based index, then the message), and the parsed data of the others.
\<close>

definition snapshot :: "string \<Rightarrow> int \<Rightarrow> int \<Rightarrow> string option \<Rightarrow> bool \<Rightarrow> ProcessingStatus" where
  "snapshot agent processed total_n err complete_flag =
     \<lparr> current_agent = agent, processed_count = processed, total_count = total_n,
       is_complete = complete_flag, error_message = err \<rparr>"

definition extraction_errors ::
  "(nat \<Rightarrow> 'f \<Rightarrow> ResumeData option \<times> string option) \<Rightarrow> nat \<Rightarrow> 'f list \<Rightarrow> string list" where
  "extraction_errors parse i fs =
     map (\<lambda>(k, f). ''Resume '' @ str_nat (k + 1) @ '': '' @ or_empty (snd (parse k f)))
       (filter (\<lambda>(k, f). truthy (snd (parse k f))) (enumerate i fs))"

definition parsed_data ::
  "(nat \<Rightarrow> 'f \<Rightarrow> ResumeData option \<times> string option) \<Rightarrow> nat \<Rightarrow> 'f list \<Rightarrow> ResumeData option list" where
  "parsed_data parse i fs =
     map (\<lambda>(k, f). fst (parse k f))
       (filter (\<lambda>(k, f). \<not> truthy (snd (parse k f))) (enumerate i fs))"

text \<open>Sample collaborators: an analyzer that succeeds, a parser that fails on one input.\<close>

definition example_analyze :: "string \<Rightarrow> JobRequirements option \<times> string option" where
  "example_analyze jd = (Some example_job, None)"

definition example_parse :: "nat \<Rightarrow> string \<Rightarrow> ResumeData option \<times> string option" where
  "example_parse k f =
     (if f = ''bad'' then (None, Some ''Empty PDF file'')
      else (Some (example_resume\<lparr>name := f\<rparr>), None))"

definition example_ai :: "MatchResult \<Rightarrow> int \<Rightarrow> string option" where
  "example_ai m r = None"

text \<open>
  A snapshot's counters are in bounds; a snapshot is \<open>quiet\<close> when, in addition, it is not
  marked complete and does not belong to the Ranker stage.
\<close>

definition in_bounds :: "ProcessingStatus \<Rightarrow> bool" where
  "in_bounds s = (0 \<le> processed_count s \<and> processed_count s \<le> total_count s)"

definition quiet :: "ProcessingStatus \<Rightarrow> bool" where
  "quiet s = (in_bounds s \<and> \<not> is_complete s \<and> current_agent s \<noteq> ''Ranker'')"

text \<open>
  The three terminal error strings a run can return with an empty result list.
\<close>

definition terminal_message :: "string \<Rightarrow> bool" where
  "terminal_message msg =
     (msg = ''No resumes could be parsed'' \<or> msg = ''No candidates could be matched''
      \<or> prefix ''Failed to analyze job description: '' msg)"

text \<open>
  What the specification asks of one run, read off its final state and its outcome; \<open>cb\<close>
  tells whether a callback was supplied. All emitted counters are in bounds, and without
  a callback nothing is emitted. A run that returns a non-empty result list is a run
  that reached ranking: its retained status is the Complete snapshot with both counters
  at the number of results, and with a callback a Ranker snapshot was emitted, exactly
  one emitted snapshot is marked complete, and that one is the last, the Complete
  snapshot. A run that returns an empty result list ended on a terminal error: the
  returned error is one of the three terminal strings, no emitted snapshot is marked
  complete or belongs to the Ranker stage, and with a callback the last emitted snapshot
  carries an error. When an exception leaves the run, no emitted snapshot is marked
  complete or belongs to the Ranker stage either.
\<close>

definition run_contract ::
  "bool \<Rightarrow> runner_state \<times> (exn + CandidateResult list \<times> string option) \<Rightarrow> bool" where
  "run_contract cb run =
     (list_all in_bounds (emitted (fst run))
      \<and> (cb \<or> emitted (fst run) = [])
      \<and> (case snd run of
           Inl e \<Rightarrow>
             filter is_complete (emitted (fst run)) = []
             \<and> \<not> list_ex (\<lambda>s. current_agent s = ''Ranker'') (emitted (fst run))
         | Inr (res, err) \<Rightarrow>
             if res \<noteq> [] then
               status (fst run)
                 = Some (snapshot ''Complete'' (int (length res)) (int (length res)) None True)
               \<and> (cb \<longrightarrow>
                    list_ex (\<lambda>s. current_agent s = ''Ranker'') (emitted (fst run))
                    \<and> filter is_complete (emitted (fst run)) = [last (emitted (fst run))]
                    \<and> last (emitted (fst run))
                        = snapshot ''Complete'' (int (length res)) (int (length res)) None True)
             else
               (case err of None \<Rightarrow> False | Some msg \<Rightarrow> terminal_message msg)
               \<and> filter is_complete (emitted (fst run)) = []
               \<and> \<not> list_ex (\<lambda>s. current_agent s = ''Ranker'') (emitted (fst run))
               \<and> (cb \<longrightarrow> emitted (fst run) \<noteq> []
                          \<and> error_message (last (emitted (fst run))) \<noteq> None)))"

text \<open>A sample match with a given name, score and matched skills.\<close>

definition example_match :: "string \<Rightarrow> real \<Rightarrow> string list \<Rightarrow> MatchResult" where
  "example_match nm score matched =
     \<lparr> resume = example_resume\<lparr>name := nm\<rparr>, overall_score = score, skills_score = score,
       experience_score = score, education_score = score, matched_skills = matched,
       skill_gaps = [], strengths = [] \<rparr>"

section \<open>The matcher's loops in closed form\<close>

lemma matched_loop_eq:
  "matched_loop d qs acc =
     acc @ map (\<lambda>q. the (d (normalize q))) (filter (\<lambda>q. d (normalize q) \<noteq> None) qs)"
  by (induction qs arbitrary: acc) (auto split: option.splits)

lemma skill_dict_snoc: "skill_dict (rs @ [s]) = (skill_dict rs)(normalize s \<mapsto> s)"
  by (simp add: skill_dict_def)

lemma skill_dict_lookup:
  "skill_dict rs k =
     (if k \<in> normalize ` set rs then Some (last (filter (\<lambda>s. normalize s = k) rs)) else None)"
proof (induction rs rule: rev_induct)
  case Nil
  show ?case by (simp add: skill_dict_def)
next
  case (snoc s rs)
  show ?case
    by (simp add: skill_dict_snoc snoc.IH)
qed

lemma gaps_loop_eq:
  "gaps_loop known qs acc = acc @ filter (\<lambda>q. normalize q \<notin> known) qs"
  by (induction qs arbitrary: acc) auto

lemma find_matched_skills_eq:
  "find_matched_skills rs qs =
     map (\<lambda>q. last (filter (\<lambda>s. normalize s = normalize q) rs))
       (filter (\<lambda>q. normalize q \<in> normalize ` set rs) qs)"
proof -
  have "filter (\<lambda>q. skill_dict rs (normalize q) \<noteq> None) qs
          = filter (\<lambda>q. normalize q \<in> normalize ` set rs) qs"
    by (rule filter_cong) (simp_all add: skill_dict_lookup)
  then show ?thesis
    by (simp add: find_matched_skills_def matched_loop_eq skill_dict_lookup)
qed

lemma identify_gaps_eq:
  "identify_gaps rs qs = filter (\<lambda>q. normalize q \<notin> normalize ` set rs) qs"
  by (simp add: identify_gaps_def gaps_loop_eq)

lemma normalize_last_filter:
  assumes "k \<in> normalize ` set rs"
  shows "normalize (last (filter (\<lambda>s. normalize s = k) rs)) = k"
proof -
  from assms have ne: "filter (\<lambda>s. normalize s = k) rs \<noteq> []"
    by (auto simp: filter_empty_conv)
  then have "last (filter (\<lambda>s. normalize s = k) rs) \<in> set (filter (\<lambda>s. normalize s = k) rs)"
    by (rule last_in_set)
  then show ?thesis by simp
qed

lemma normalized_matched:
  "set (map normalize (find_matched_skills rs qs)) = normalize ` set qs \<inter> normalize ` set rs"
  by (auto simp: find_matched_skills_eq normalize_last_filter image_iff)

lemma normalized_gaps:
  "set (map normalize (identify_gaps rs qs)) = normalize ` set qs - normalize ` set rs"
  by (auto simp: identify_gaps_eq)

lemma match_candidate_sel:
  "overall_score (match_candidate fmt1 res reqs) =
     compute_score (compute_skills_score (skills res) (required_skills reqs))
       (compute_experience_score (experience res) (min_experience_years reqs))
       (compute_education_score (education res) (education_requirements reqs))"
  "skills_score (match_candidate fmt1 res reqs) =
     compute_skills_score (skills res) (required_skills reqs)"
  "experience_score (match_candidate fmt1 res reqs) =
     compute_experience_score (experience res) (min_experience_years reqs)"
  "education_score (match_candidate fmt1 res reqs) =
     compute_education_score (education res) (education_requirements reqs)"
  "matched_skills (match_candidate fmt1 res reqs) =
     find_matched_skills (skills res) (required_skills reqs)"
  "skill_gaps (match_candidate fmt1 res reqs) =
     identify_gaps (skills res) (required_skills reqs)"
  "strengths (match_candidate fmt1 res reqs) = identify_strengths fmt1 res reqs"
  "resume (match_candidate fmt1 res reqs) = res"
  by (simp_all add: match_candidate_def Let_def)

lemma normalize_python: "normalize ''python'' = ''python''"
  by code_simp

lemma normalize_Python: "normalize ''Python'' = ''python''"
  by code_simp

lemma normalize_SQL: "normalize ''SQL'' = ''sql''"
  by code_simp

section \<open>The weighted score\<close>

lemma compute_score_formula:
  "compute_score s e d = 0.4 * s + 0.4 * e + 0.2 * d"
  by (simp add: compute_score_def SKILLS_WEIGHT_def EXPERIENCE_WEIGHT_def EDUCATION_WEIGHT_def)

text \<open>
  C1. For every resume and every job requirements, the overall score of the result of
  \<open>match_candidate\<close> is 0.4 times the skills score plus 0.4 times the experience score
  plus 0.2 times the education score; the two sides are equal, hence within 0.01 of
  each other.
\<close>

theorem overall_is_weighted_sum:
  "overall_score (match_candidate fmt1 res reqs) =
     0.4 * skills_score (match_candidate fmt1 res reqs)
     + 0.4 * experience_score (match_candidate fmt1 res reqs)
     + 0.2 * education_score (match_candidate fmt1 res reqs)
   \<and> \<bar>overall_score (match_candidate fmt1 res reqs)
       - (0.4 * skills_score (match_candidate fmt1 res reqs)
          + 0.4 * experience_score (match_candidate fmt1 res reqs)
          + 0.2 * education_score (match_candidate fmt1 res reqs))\<bar> \<le> 0.01"
  by (simp add: match_candidate_sel compute_score_formula)

section \<open>Score bounds\<close>

lemma skills_score_in_range: "in_range (compute_skills_score rs qs)"
  by (simp add: compute_skills_score_def in_range_def Let_def)

lemma total_months_nonneg:
  assumes "\<forall>e\<in>set exps. 0 \<le> or_zero (duration_months e)"
  shows "0 \<le> total_months exps"
  unfolding total_months_def using assms by (intro sum_list_nonneg) auto

lemma experience_score_in_range:
  assumes "\<forall>e\<in>set exps. 0 \<le> or_zero (duration_months e)"
  shows "in_range (compute_experience_score exps my)"
proof -
  have "0 \<le> total_years exps"
    using total_months_nonneg [OF assms] by (simp add: total_years_def)
  then show ?thesis
    by (simp add: compute_experience_score_def in_range_def Let_def)
qed

lemma education_score_in_range: "in_range (compute_education_score edus reqs)"
  by (simp add: compute_education_score_def in_range_def Let_def)

lemma compute_score_in_range:
  assumes "in_range s" "in_range e" "in_range d"
  shows "in_range (compute_score s e d)"
  using assms unfolding in_range_def compute_score_formula by simp

lemma deficit_below_100:
  fixes ty :: real and my :: int
  assumes "0 < my" "ty < real_of_int my"
  shows "(ty / real_of_int my) * 100 < 100"
  using assms by (simp add: pos_divide_less_eq)

text \<open>
  C2. When every experience entry's \<open>duration_months\<close> is absent or a non-negative integer
  and \<open>min_experience_years\<close> is non-negative, the four scores of the result of
  \<open>match_candidate\<close> lie between 0 and 100. In the deficit branch (a positive minimum and
  total years strictly below it) the quotient times 100 is already below 100, and the
  experience score is that value: the cap changes nothing.
\<close>

theorem scores_in_range:
  assumes durations: "\<forall>e\<in>set (experience res). 0 \<le> or_zero (duration_months e)"
      and min_years: "0 \<le> or_zero (min_experience_years reqs)"
  shows "in_range (overall_score (match_candidate fmt1 res reqs))
       \<and> in_range (skills_score (match_candidate fmt1 res reqs))
       \<and> in_range (experience_score (match_candidate fmt1 res reqs))
       \<and> in_range (education_score (match_candidate fmt1 res reqs))
       \<and> (0 < or_zero (min_experience_years reqs)
            \<and> total_years (experience res) < real_of_int (or_zero (min_experience_years reqs))
          \<longrightarrow> (total_years (experience res) / real_of_int (or_zero (min_experience_years reqs))) * 100
                < 100
              \<and> experience_score (match_candidate fmt1 res reqs)
                  = (total_years (experience res) / real_of_int (or_zero (min_experience_years reqs)))
                      * 100)"
proof -
  have s: "in_range (compute_skills_score (skills res) (required_skills reqs))"
    by (rule skills_score_in_range)
  have e: "in_range (compute_experience_score (experience res) (min_experience_years reqs))"
    by (rule experience_score_in_range [OF durations])
  have d: "in_range (compute_education_score (education res) (education_requirements reqs))"
    by (rule education_score_in_range)
  have o: "in_range (overall_score (match_candidate fmt1 res reqs))"
    unfolding match_candidate_sel by (rule compute_score_in_range [OF s e d])
  have deficit:
    "(total_years (experience res) / real_of_int (or_zero (min_experience_years reqs))) * 100 < 100
     \<and> experience_score (match_candidate fmt1 res reqs)
         = (total_years (experience res) / real_of_int (or_zero (min_experience_years reqs))) * 100"
    if "0 < or_zero (min_experience_years reqs)"
       "total_years (experience res) < real_of_int (or_zero (min_experience_years reqs))"
  proof -
    have "(total_years (experience res) / real_of_int (or_zero (min_experience_years reqs))) * 100
            < 100"
      by (rule deficit_below_100 [OF that])
    then show ?thesis
      using that by (simp add: match_candidate_sel compute_experience_score_def Let_def)
  qed
  from s e d o deficit show ?thesis
    by (simp add: match_candidate_sel)
qed

theorem scores_in_range_witness:
  "in_range (overall_score (match_candidate example_fmt1 example_resume example_job))
   \<and> in_range (skills_score (match_candidate example_fmt1 example_resume example_job))
   \<and> in_range (experience_score (match_candidate example_fmt1 example_resume example_job))
   \<and> in_range (education_score (match_candidate example_fmt1 example_resume example_job))
   \<and> total_years (experience example_resume) = 1 / 2
   \<and> experience_score (match_candidate example_fmt1 example_resume example_job) = 25"
proof -
  have d: "\<forall>e\<in>set (experience example_resume). 0 \<le> or_zero (duration_months e)"
    by (simp add: example_resume_def or_zero_def)
  have m: "0 \<le> or_zero (min_experience_years example_job)"
    by (simp add: example_job_def or_zero_def)
  have ty: "total_years (experience example_resume) = 1 / 2"
    by (simp add: example_resume_def total_years_def total_months_def or_zero_def)
  have my: "or_zero (min_experience_years example_job) = 2"
    by (simp add: example_job_def or_zero_def)
  show ?thesis
    using scores_in_range [OF d m, of example_fmt1] by (simp add: ty my in_range_def)
qed

section \<open>Matched skills and gaps\<close>

text \<open>
  C3. For all skill lists, the normal forms of the gaps together with the normal forms of
  the matched skills are exactly the normal forms of the required skills, and no normal
  form is on both sides.
\<close>

theorem gaps_and_matched_partition_required:
  "set (map normalize (identify_gaps resume_skills req_skills))
     \<union> set (map normalize (find_matched_skills resume_skills req_skills))
     = set (map normalize req_skills)
   \<and> set (map normalize (identify_gaps resume_skills req_skills))
     \<inter> set (map normalize (find_matched_skills resume_skills req_skills)) = {}"
  unfolding normalized_matched normalized_gaps by auto

text \<open>
  C7, as the code has it. For a resume whose skills are \<open>["python"]\<close> and requirements
  whose required skills are \<open>["Python", "SQL"]\<close>, the skills score is 50, the matched
  skills are \<open>["python"]\<close> (the resume's own spelling, not the requirement's), and the
  gaps are \<open>["SQL"]\<close>.
\<close>

theorem required_pair_scenario:
  assumes "skills res = [''python'']" and "required_skills reqs = [''Python'', ''SQL'']"
  shows "skills_score (match_candidate fmt1 res reqs) = 50
       \<and> matched_skills (match_candidate fmt1 res reqs) = [''python'']
       \<and> skill_gaps (match_candidate fmt1 res reqs) = [''SQL'']"
proof -
  have "compute_skills_score [''python''] [''Python'', ''SQL''] = 50"
    by (simp add: compute_skills_score_def normalize_python normalize_Python normalize_SQL Let_def)
  moreover have "find_matched_skills [''python''] [''Python'', ''SQL''] = [''python'']"
    by (simp add: find_matched_skills_eq normalize_python normalize_Python normalize_SQL)
  moreover have "identify_gaps [''python''] [''Python'', ''SQL''] = [''SQL'']"
    by (simp add: identify_gaps_eq normalize_python normalize_Python normalize_SQL)
  ultimately show ?thesis
    by (simp add: match_candidate_sel assms)
qed

theorem required_pair_scenario_witness:
  "skills_score (match_candidate example_fmt1 example_resume example_job) = 50
   \<and> matched_skills (match_candidate example_fmt1 example_resume example_job) = [''python'']
   \<and> skill_gaps (match_candidate example_fmt1 example_resume example_job) = [''SQL'']"
  using required_pair_scenario [of example_resume example_job example_fmt1]
  by (simp add: example_resume_def example_job_def)

text \<open>
  The claim as the specification words it (the single matched entry is spelled
  \<open>"Python"\<close>, as in the requirement) fails on that input.
\<close>

theorem matched_required_casing_counterexample:
  "skills example_resume = [''python'']
   \<and> required_skills example_job = [''Python'', ''SQL'']
   \<and> matched_skills (match_candidate example_fmt1 example_resume example_job) \<noteq> [''Python'']"
proof -
  have "find_matched_skills [''python''] [''Python'', ''SQL''] = [''python'']"
    by (simp add: find_matched_skills_eq normalize_python normalize_Python normalize_SQL)
  then show ?thesis
    by (simp add: match_candidate_sel example_resume_def example_job_def)
qed

section \<open>Duplicate skills\<close>

lemma length_matched_plus_gaps:
  "length (find_matched_skills rs qs) + length (identify_gaps rs qs) = length qs"
  unfolding find_matched_skills_eq identify_gaps_eq length_map
  by (rule sum_length_filter_compl)

text \<open>
  C10. Each matched entry is the last resume skill whose normal form equals the normal
  form of the required skill producing it, so among resume skills with one normal form
  the last one is reported. The matched list has one entry per occurrence of a required
  skill found in the resume and the gaps have one entry per occurrence of a required
  skill not found, duplicates included: together as many entries as the required list
  is long. The skills score, for a non-empty required list, divides by the number of
  distinct normal forms of the required skills.
\<close>

theorem duplicate_skills_behaviour:
  "matched_skills (match_candidate fmt1 res reqs)
     = map (\<lambda>q. last (filter (\<lambda>s. normalize s = normalize q) (skills res)))
         (filter (\<lambda>q. normalize q \<in> normalize ` set (skills res)) (required_skills reqs))
   \<and> skill_gaps (match_candidate fmt1 res reqs)
     = filter (\<lambda>q. normalize q \<notin> normalize ` set (skills res)) (required_skills reqs)
   \<and> length (matched_skills (match_candidate fmt1 res reqs))
       + length (skill_gaps (match_candidate fmt1 res reqs)) = length (required_skills reqs)
   \<and> (required_skills reqs \<noteq> [] \<longrightarrow>
        skills_score (match_candidate fmt1 res reqs)
          = min 100 (real (card (normalize ` set (skills res) \<inter> normalize ` set (required_skills reqs)))
                      / real (card (normalize ` set (required_skills reqs))) * 100))"
  by (simp add: match_candidate_sel find_matched_skills_eq [symmetric] identify_gaps_eq [symmetric]
        length_matched_plus_gaps compute_skills_score_def Let_def)

lemma normalize_PYTHON_sp: "normalize ''PYTHON '' = ''python''"
  by code_simp

lemma normalize_Go: "normalize ''Go'' = ''go''"
  by code_simp

theorem duplicate_skills_behaviour_witness:
  "matched_skills (match_candidate example_fmt1 example_resume_dup example_job_dup)
     = [''PYTHON '', ''PYTHON '']
   \<and> skill_gaps (match_candidate example_fmt1 example_resume_dup example_job_dup) = [''Go'']
   \<and> length (required_skills example_job_dup) = 3
   \<and> skills_score (match_candidate example_fmt1 example_resume_dup example_job_dup) = 50"
proof -
  have s: "skills example_resume_dup = [''Python'', ''PYTHON '']"
    by (simp add: example_resume_dup_def)
  have q: "required_skills example_job_dup = [''python'', ''python'', ''Go'']"
    by (simp add: example_job_dup_def)
  have c1: "card {''python''} = 1" by simp
  have c2: "card {''python'', ''go''} = 2" by simp
  have i: "{''python''} \<inter> {''python'', ''go''} = {''python''}" by simp
  show ?thesis
    using duplicate_skills_behaviour [of example_fmt1 example_resume_dup example_job_dup]
    by (simp add: s q normalize_Python normalize_python normalize_PYTHON_sp normalize_Go c1 c2 i)
qed

section \<open>Ranking\<close>

text \<open>The ranking loop in closed form.\<close>

lemma rank_loop_eq:
  "rank_loop ai fmt1 gen r ms acc =
     acc @ map (\<lambda>k. make_result (ms ! k) (r + int k)
                  (if gen then generate_explanation ai fmt1 (ms ! k) (r + int k)
                   else generate_simple_explanation fmt1 (ms ! k) (r + int k)))
             [0..<length ms]"
proof (induction ms arbitrary: r acc)
  case Nil
  show ?case by simp
next
  case (Cons m ms)
  have shift: "r + 1 + int k = r + int (Suc k)" for k by simp
  show ?case
    by (simp add: Cons.IH Let_def map_upt_Suc shift del: upt_Suc of_nat_Suc)
qed

lemma rank_candidates_eq:
  "rank_candidates ai fmt1 ms gen =
     map (\<lambda>k. make_result (sorted_matches ms ! k) (1 + int k)
                  (if gen then generate_explanation ai fmt1 (sorted_matches ms ! k) (1 + int k)
                   else generate_simple_explanation fmt1 (sorted_matches ms ! k) (1 + int k)))
         [0..<length ms]"
  by (simp add: rank_candidates_def rank_loop_eq sorted_matches_def py_sorted_reverse_def)

lemma length_sorted_matches: "length (sorted_matches ms) = length ms"
  by (simp add: sorted_matches_def py_sorted_reverse_def)




lemma make_result_sel:
  "rank (make_result m r e) = r"
  "explanation (make_result m r e) = e"
  "result_key (make_result m r e) = sort_key_of m"
  "unranked (make_result m r e) = candidate_of m"
  by (simp_all add: make_result_def result_key_def sort_key_of_def unranked_def candidate_of_def)




text \<open>
  A concrete ranking: the highest score first, then the larger number of matched skills,
  and the two matches with equal keys in their input order.
\<close>

lemma rank_candidates_example:
  "map (\<lambda>c. (rank c, cand_name c))
     (rank_candidates example_ai example_fmt1
        [example_match ''A'' 50 [''x''], example_match ''B'' 50 [''x''],
         example_match ''C'' 50 [''x'', ''y''], example_match ''D'' 80 []] False)
   = [(1, ''D''), (2, ''C''), (3, ''A''), (4, ''B'')]"
  by code_simp

section \<open>Explanation\<close>

lemma py_join_nonempty: "x \<noteq> [] \<Longrightarrow> py_join sep (x # xs) \<noteq> []"
  by (cases xs) simp_all

lemma simple_explanation_template:
  "generate_simple_explanation fmt1 m r = deterministic_template fmt1 m r"
  by (simp add: generate_simple_explanation_def deterministic_template_def
        template_sentences_def Let_def)

lemma template_nonempty: "deterministic_template fmt1 m r \<noteq> []"
  unfolding deterministic_template_def template_sentences_def
  by (simp only: append_Cons append_Nil) (rule py_join_nonempty, simp)

text \<open>
  C8. Without generated explanations, the explanation of a match at a rank is the
  deterministic template: the opening sentence, then the sentence on matching skills
  exactly when there are matched skills, the sentence on missing skills exactly when
  there are gaps, the sentence on the first two strengths exactly when there are
  strengths, joined by single spaces in this order. Every result of \<open>rank_candidates\<close>
  called with the flag off carries the template for its match and rank, and no
  explanation is empty.
\<close>

theorem simple_explanation_is_template:
  "generate_simple_explanation fmt1 m r = deterministic_template fmt1 m r
   \<and> deterministic_template fmt1 m r \<noteq> []
   \<and> map explanation (rank_candidates ai fmt1 ms False)
       = map2 (deterministic_template fmt1) (sorted_matches ms) (map int [1..<Suc (length ms)])
   \<and> list_all (\<lambda>c. explanation c \<noteq> []) (rank_candidates ai fmt1 ms False)"
proof -
  have expl: "map explanation (rank_candidates ai fmt1 ms False)
       = map2 (deterministic_template fmt1) (sorted_matches ms) (map int [1..<Suc (length ms)])"
    unfolding rank_candidates_eq
    by (rule nth_equalityI)
       (simp_all add: make_result_sel simple_explanation_template length_sorted_matches
          del: upt_Suc)
  have "list_all (\<lambda>c. explanation c \<noteq> []) (rank_candidates ai fmt1 ms False)"
    unfolding rank_candidates_eq
    by (simp add: list_all_iff make_result_sel simple_explanation_template template_nonempty)
  with expl show ?thesis
    by (simp add: simple_explanation_template template_nonempty)
qed

text \<open>A concrete explanation, with all three optional sentences.\<close>

lemma simple_explanation_example:
  "generate_simple_explanation example_fmt1
     ((example_match ''A'' (175 / 2) [''x''])\<lparr>skill_gaps := [''y'', ''z''],
        strengths := [''s1'', ''s2'', ''s3'']\<rparr>) 3
   = ''Ranked #3 with 87.5% match. Has 1 matching skills. Missing 2 required skills. Strengths: s1, s2.''"
  by code_simp

section \<open>The runner's loops\<close>

lemma report_emitted:
  "emitted (report cb agent p t e c st) =
     (if cb then emitted st @ [snapshot agent p t e c] else emitted st)"
  by (simp add: report_def update_status_def notify_def snapshot_def Let_def)

lemma report_status:
  "status (report cb agent p t e c st) = Some (snapshot agent p t e c)"
  by (simp add: report_def update_status_def notify_def snapshot_def Let_def)

lemma parse_loop_parsed:
  "fst (snd (parse_loop cb parse tot i fs st parsed errors)) = parsed @ parsed_data parse i fs"
  by (induction fs arbitrary: i st parsed errors)
     (simp_all add: parsed_data_def enumerate_simps Let_def split: prod.splits)

lemma parse_loop_errors:
  "snd (snd (parse_loop cb parse tot i fs st parsed errors))
     = errors @ extraction_errors parse i fs"
  by (induction fs arbitrary: i st parsed errors)
     (simp_all add: extraction_errors_def enumerate_simps Let_def split: prod.splits)

lemma match_loop_total:
  assumes "list_all (\<lambda>r. r \<noteq> None) rs"
  shows "snd (match_loop cb fmt1 (Some reqs) tot i rs st matches errors)
           = Inr (matches @ map (\<lambda>r. match_candidate fmt1 (the r) reqs) rs, errors)"
  using assms
  by (induction rs arbitrary: i st matches)
     (auto simp: try_match_def Let_def)

lemma all_fail_enumerate:
  assumes "\<forall>k<length fs. truthy (snd (parse (i + k) (fs ! k)))"
      and "(k, f) \<in> set (enumerate i fs)"
  shows "truthy (snd (parse k f))"
proof -
  from assms(2) have "i \<le> k" "k - i < length fs" "f = fs ! (k - i)"
    by (auto simp: in_set_enumerate_eq)
  with assms(1) have "truthy (snd (parse (i + (k - i)) f))"
    by blast
  with \<open>i \<le> k\<close> show ?thesis by simp
qed

lemma all_fail_no_data:
  assumes "\<forall>k<length fs. truthy (snd (parse (i + k) (fs ! k)))"
  shows "parsed_data parse i fs = []"
  using all_fail_enumerate [OF assms]
  by (auto simp: parsed_data_def filter_empty_conv)

lemma all_fail_all_errors:
  assumes "\<forall>k<length fs. truthy (snd (parse (i + k) (fs ! k)))"
  shows "length (extraction_errors parse i fs) = length fs"
proof -
  have "filter (\<lambda>(k, f). truthy (snd (parse k f))) (enumerate i fs) = enumerate i fs"
    using all_fail_enumerate [OF assms] by (auto simp: filter_id_conv)
  then show ?thesis
    by (simp add: extraction_errors_def)
qed

lemma R_not_in_message: "CHR ''R'' \<notin> set ''No resumes could be parsed''"
  by simp

lemma extraction_error_not_in_message:
  assumes "e \<in> set (extraction_errors parse i fs)"
  shows "\<not> sublist e ''No resumes could be parsed''"
proof
  assume sub: "sublist e ''No resumes could be parsed''"
  from assms obtain rest where e: "e = CHR ''R'' # rest"
    by (auto simp: extraction_errors_def)
  from sub have "set e \<subseteq> set ''No resumes could be parsed''"
    by (rule set_mono_sublist)
  with e have "CHR ''R'' \<in> set ''No resumes could be parsed''"
    by auto
  with R_not_in_message show False by blast
qed


section \<open>Zero parsed resumes\<close>

lemma parse_loop_result:
  "\<exists>st2. parse_loop cb parse tot i fs st parsed errors
           = (st2, parsed @ parsed_data parse i fs, errors @ extraction_errors parse i fs)"
proof -
  obtain st2 p2 e2 where pl: "parse_loop cb parse tot i fs st parsed errors = (st2, p2, e2)"
    by (cases "parse_loop cb parse tot i fs st parsed errors") auto
  from parse_loop_parsed [of cb parse tot i fs st parsed errors] pl
  have "p2 = parsed @ parsed_data parse i fs" by simp
  moreover from parse_loop_errors [of cb parse tot i fs st parsed errors] pl
  have "e2 = errors @ extraction_errors parse i fs" by simp
  ultimately show ?thesis using pl by simp
qed

text \<open>
  C6. When the analyzer reports no error and the parser reports an error for every input,
  \<open>process\<close> returns no results and the error \<open>No resumes could be parsed\<close>; the
  retained status, and with a callback the last emitted snapshot, is the Parser
  snapshot carrying that error, with both counters at the number of inputs. The parser
  loop did accumulate one error line per input, and none of these lines occurs in the
  returned error string.
\<close>

theorem no_resume_parsed:
  assumes analysis: "\<not> truthy (snd (analyze jd))"
      and all_fail: "\<forall>k<length files. truthy (snd (parse k (files ! k)))"
  shows "snd (process cb analyze parse ai fmt1 files jd gen)
           = Inr ([], Some ''No resumes could be parsed'')
       \<and> status (fst (process cb analyze parse ai fmt1 files jd gen))
           = Some (snapshot ''Parser'' (int (length files)) (int (length files))
                     (Some ''No resumes could be parsed'') False)
       \<and> (cb \<longrightarrow> last (emitted (fst (process cb analyze parse ai fmt1 files jd gen)))
                  = snapshot ''Parser'' (int (length files)) (int (length files))
                      (Some ''No resumes could be parsed'') False)
       \<and> (\<forall>st. snd (snd (parse_loop cb parse (int (length files)) 0 files st [] []))
                  = extraction_errors parse 0 files)
       \<and> length (extraction_errors parse 0 files) = length files
       \<and> (\<forall>e\<in>set (extraction_errors parse 0 files).
             \<not> sublist e ''No resumes could be parsed'')"
proof -
  obtain jr e0 where a: "analyze jd = (jr, e0)"
    by (cases "analyze jd") auto
  with analysis have e0: "\<not> truthy e0" by simp
  have fail0: "\<forall>k<length files. truthy (snd (parse (0 + k) (files ! k)))"
    using all_fail by simp
  have none: "parsed_data parse 0 files = []"
    by (rule all_fail_no_data [OF fail0])
  obtain st2 where pl:
    "parse_loop cb parse (int (length files)) 0 files
       (report cb ''Analyzer'' 0 (int (length files)) None False new_runner) [] []
     = (st2, [], extraction_errors parse 0 files)"
    using parse_loop_result [of cb parse "int (length files)" 0 files
            "report cb ''Analyzer'' 0 (int (length files)) None False new_runner" "[]" "[]"]
    by (auto simp: none)
  have run: "process cb analyze parse ai fmt1 files jd gen
               = (report cb ''Parser'' (int (length files)) (int (length files))
                    (Some ''No resumes could be parsed'') False st2,
                  Inr ([], Some ''No resumes could be parsed''))"
    by (simp add: process_def Let_def a e0 pl)
  have "\<forall>st. snd (snd (parse_loop cb parse (int (length files)) 0 files st [] []))
                  = extraction_errors parse 0 files"
    by (simp add: parse_loop_errors)
  moreover have "length (extraction_errors parse 0 files) = length files"
    by (rule all_fail_all_errors [OF fail0])
  moreover have "\<forall>e\<in>set (extraction_errors parse 0 files).
             \<not> sublist e ''No resumes could be parsed''"
    using extraction_error_not_in_message by blast
  moreover have "cb \<longrightarrow> last (emitted (fst (process cb analyze parse ai fmt1 files jd gen)))
                  = snapshot ''Parser'' (int (length files)) (int (length files))
                      (Some ''No resumes could be parsed'') False"
    unfolding run by (simp add: report_emitted)
  moreover have "status (fst (process cb analyze parse ai fmt1 files jd gen))
           = Some (snapshot ''Parser'' (int (length files)) (int (length files))
                     (Some ''No resumes could be parsed'') False)"
    unfolding run by (simp add: report_status)
  moreover have "snd (process cb analyze parse ai fmt1 files jd gen)
           = Inr ([], Some ''No resumes could be parsed'')"
    unfolding run by simp
  ultimately show ?thesis
    by blast
qed

lemma str_nat_2: "str_nat (Suc (Suc 0)) = ''2''"
  by code_simp

lemma str_nat_1: "str_nat (Suc 0) = ''1''"
  by code_simp

theorem no_resume_parsed_witness:
  "snd (process True example_analyze example_parse example_ai example_fmt1
          [''bad'', ''bad''] ''Engineer wanted'' False)
     = Inr ([], Some ''No resumes could be parsed'')
   \<and> last (emitted (fst (process True example_analyze example_parse example_ai example_fmt1
          [''bad'', ''bad''] ''Engineer wanted'' False)))
     = snapshot ''Parser'' 2 2 (Some ''No resumes could be parsed'') False
   \<and> extraction_errors example_parse 0 [''bad'', ''bad'']
     = [''Resume 1: Empty PDF file'', ''Resume 2: Empty PDF file'']"
proof -
  have a: "\<not> truthy (snd (example_analyze ''Engineer wanted''))"
    by (simp add: example_analyze_def truthy_def)
  have f: "\<forall>k<length [''bad'', ''bad'']. truthy (snd (example_parse k ([''bad'', ''bad''] ! k)))"
    by (auto simp: example_parse_def truthy_def less_Suc_eq)
  have e: "extraction_errors example_parse 0 [''bad'', ''bad'']
     = [''Resume 1: Empty PDF file'', ''Resume 2: Empty PDF file'']"
    by (simp add: extraction_errors_def enumerate_simps example_parse_def truthy_def or_empty_def
          str_nat_1 str_nat_2)
  show ?thesis
    using no_resume_parsed [where analyze = example_analyze and parse = example_parse
            and cb = True and ai = example_ai and ?fmt1.0 = example_fmt1 and gen = False,
            OF a f] e
    by simp
qed

section \<open>Completed runs\<close>

lemma process_completes:
  assumes a: "analyze jd = (Some reqs, e0)" and e0: "\<not> truthy e0"
      and present: "list_all (\<lambda>r. r \<noteq> None) (parsed_data parse 0 files)"
      and some: "parsed_data parse 0 files \<noteq> []"
  shows "snd (process cb analyze parse ai fmt1 files jd gen)
           = Inr (rank_candidates ai fmt1
                    (map (\<lambda>r. match_candidate fmt1 (the r) reqs) (parsed_data parse 0 files)) gen,
                  error_summary (extraction_errors parse 0 files))"
    and "status (fst (process cb analyze parse ai fmt1 files jd gen))
           = Some (snapshot ''Complete'' (int (length (parsed_data parse 0 files)))
                     (int (length (parsed_data parse 0 files))) None True)"
    and "cb \<Longrightarrow> last (emitted (fst (process cb analyze parse ai fmt1 files jd gen)))
           = snapshot ''Complete'' (int (length (parsed_data parse 0 files)))
               (int (length (parsed_data parse 0 files))) None True"
proof -
  let ?pd = "parsed_data parse 0 files"
  let ?ms = "map (\<lambda>r. match_candidate fmt1 (the r) reqs) ?pd"
  obtain st2 where pl:
    "parse_loop cb parse (int (length files)) 0 files
       (report cb ''Analyzer'' 0 (int (length files)) None False new_runner) [] []
     = (st2, ?pd, extraction_errors parse 0 files)"
    using parse_loop_result [of cb parse "int (length files)" 0 files
            "report cb ''Analyzer'' 0 (int (length files)) None False new_runner" "[]" "[]"]
    by auto
  obtain st3 where ml:
    "match_loop cb fmt1 (Some reqs) (int (length ?pd)) 0 ?pd st2 [] (extraction_errors parse 0 files)
       = (st3, Inr (?ms, extraction_errors parse 0 files))"
    using match_loop_total [OF present, of cb fmt1 reqs "int (length ?pd)" 0 st2 "[]"
            "extraction_errors parse 0 files"]
    by (cases "match_loop cb fmt1 (Some reqs) (int (length ?pd)) 0 ?pd st2 []
                 (extraction_errors parse 0 files)") auto
  have len: "length (rank_candidates ai fmt1 ?ms gen) = length ?pd"
    by (simp add: rank_candidates_eq)
  have run: "process cb analyze parse ai fmt1 files jd gen
      = (report cb ''Complete'' (int (length ?pd)) (int (length ?pd)) None True
           (report cb ''Ranker'' 0 (int (length ?pd)) None False st3),
         Inr (rank_candidates ai fmt1 ?ms gen, error_summary (extraction_errors parse 0 files)))"
    using some by (simp add: process_def Let_def a e0 pl ml len)
  show "snd (process cb analyze parse ai fmt1 files jd gen)
           = Inr (rank_candidates ai fmt1 ?ms gen, error_summary (extraction_errors parse 0 files))"
    by (simp add: run)
  show "status (fst (process cb analyze parse ai fmt1 files jd gen))
           = Some (snapshot ''Complete'' (int (length ?pd)) (int (length ?pd)) None True)"
    by (simp add: run report_status)
  show "last (emitted (fst (process cb analyze parse ai fmt1 files jd gen)))
           = snapshot ''Complete'' (int (length ?pd)) (int (length ?pd)) None True" if cb
    unfolding run using that by (simp add: report_emitted)
qed

text \<open>
  C5. For three inputs of which the first and third parse (the analyzer having
  succeeded) and the second returns an error message, \<open>process\<close> returns two results
  and the error summary of the accumulated errors. These are the single line
  \<open>Resume 2:\<close> followed by the message, so the summary is that line and contains
  \<open>Resume 2:\<close>; the summary of no errors is \<open>None\<close>. The retained status is the
  Complete snapshot, and with a callback the last emitted snapshot is marked complete.
\<close>

theorem batch_of_three_second_fails:
  assumes a: "analyze jd = (Some reqs, e0)" and e0: "\<not> truthy e0"
      and p1: "parse 0 f1 = (Some r1, e1)" and e1: "\<not> truthy e1"
      and p2: "parse 1 f2 = (d2, Some m2)" and m2: "m2 \<noteq> []"
      and p3: "parse 2 f3 = (Some r3, e3)" and e3: "\<not> truthy e3"
  shows "\<exists>results.
           snd (process cb analyze parse ai fmt1 [f1, f2, f3] jd gen)
             = Inr (results, error_summary (extraction_errors parse 0 [f1, f2, f3]))
         \<and> length results = 2
         \<and> extraction_errors parse 0 [f1, f2, f3] = [''Resume 2: '' @ m2]
         \<and> error_summary [''Resume 2: '' @ m2] = Some (''Resume 2: '' @ m2)
         \<and> sublist ''Resume 2:'' (''Resume 2: '' @ m2)
         \<and> error_summary [] = None
         \<and> status (fst (process cb analyze parse ai fmt1 [f1, f2, f3] jd gen))
             = Some (snapshot ''Complete'' 2 2 None True)
         \<and> (cb \<longrightarrow> is_complete (last (emitted
                      (fst (process cb analyze parse ai fmt1 [f1, f2, f3] jd gen)))))"
proof -
  have t2: "truthy (Some m2)" using m2 by (simp add: truthy_def)
  have p2': "parse (Suc 0) f2 = (d2, Some m2)" using p2 by simp
  have p3': "parse (Suc (Suc 0)) f3 = (Some r3, e3)" using p3 by (simp add: numeral_2_eq_2)
  have pd: "parsed_data parse 0 [f1, f2, f3] = [Some r1, Some r3]"
    by (simp add: parsed_data_def enumerate_simps p1 p2' p3' e1 e3 t2)
  have ee: "extraction_errors parse 0 [f1, f2, f3] = [''Resume 2: '' @ m2]"
    by (simp add: extraction_errors_def enumerate_simps p1 p2' p3' e1 e3 t2 or_empty_def
          str_nat_2)
  have present: "list_all (\<lambda>r. r \<noteq> None) (parsed_data parse 0 [f1, f2, f3])"
    by (simp add: pd)
  have some: "parsed_data parse 0 [f1, f2, f3] \<noteq> []"
    by (simp add: pd)
  note fin = process_completes [where analyze = analyze and jd = jd and parse = parse
      and files = "[f1, f2, f3]" and cb = cb and ai = ai and ?fmt1.0 = fmt1 and gen = gen,
      OF a e0 present some]
  have len: "length (rank_candidates ai fmt1
               (map (\<lambda>r. match_candidate fmt1 (the r) reqs) (parsed_data parse 0 [f1, f2, f3])) gen) = 2"
    by (simp add: rank_candidates_eq pd)
  have sub: "sublist ''Resume 2:'' (''Resume 2: '' @ m2)"
  proof -
    have "prefix ''Resume 2:'' (''Resume 2: '' @ m2)" by simp
    then show ?thesis by (rule prefix_imp_sublist)
  qed
  have last_complete: "is_complete (last (emitted
                      (fst (process cb analyze parse ai fmt1 [f1, f2, f3] jd gen))))" if cb
    using fin(3) [OF that] by (simp add: snapshot_def)
  from fin(1) fin(2) len ee sub last_complete show ?thesis
    by (simp add: pd error_summary_def)
qed

theorem batch_of_three_second_fails_witness:
  "\<exists>results.
     snd (process True example_analyze example_parse example_ai example_fmt1
            [''a'', ''bad'', ''c''] ''Engineer wanted'' False)
       = Inr (results, Some ''Resume 2: Empty PDF file'')
     \<and> length results = 2
     \<and> is_complete (last (emitted (fst (process True example_analyze example_parse example_ai
            example_fmt1 [''a'', ''bad'', ''c''] ''Engineer wanted'' False))))"
proof -
  have a: "example_analyze ''Engineer wanted'' = (Some example_job, None)"
    by (simp add: example_analyze_def)
  have e0: "\<not> truthy None"
    by (simp add: truthy_def)
  have p1: "example_parse 0 ''a'' = (Some (example_resume\<lparr>name := ''a''\<rparr>), None)"
    by (simp add: example_parse_def)
  have p2: "example_parse 1 ''bad'' = (None, Some ''Empty PDF file'')"
    by (simp add: example_parse_def)
  have m2: "''Empty PDF file'' \<noteq> []"
    by simp
  have p3: "example_parse 2 ''c'' = (Some (example_resume\<lparr>name := ''c''\<rparr>), None)"
    by (simp add: example_parse_def)
  show ?thesis
    using batch_of_three_second_fails [where analyze = example_analyze and parse = example_parse
            and cb = True and ai = example_ai and ?fmt1.0 = example_fmt1 and gen = False,
            OF a e0 p1 e0 p2 m2 p3 e0]
    by (auto simp: error_summary_def)
qed

section \<open>Status snapshots\<close>

lemma quiet_snapshot:
  "0 \<le> p \<Longrightarrow> p \<le> t \<Longrightarrow> agent \<noteq> ''Ranker'' \<Longrightarrow> quiet (snapshot agent p t e False)"
  by (simp add: quiet_def in_bounds_def snapshot_def)

lemma report_quiet:
  assumes "0 \<le> p" "p \<le> t" "agent \<noteq> ''Ranker''"
  shows "\<exists>new. emitted (report cb agent p t e False st) = emitted st @ new \<and> list_all quiet new"
proof (cases cb)
  case True
  then have "emitted (report cb agent p t e False st) = emitted st @ [snapshot agent p t e False]"
    by (simp add: report_emitted)
  moreover have "list_all quiet [snapshot agent p t e False]"
    using quiet_snapshot [OF assms] by simp
  ultimately show ?thesis by blast
next
  case False
  then have "emitted (report cb agent p t e False st) = emitted st @ []"
    by (simp add: report_emitted)
  then show ?thesis by (simp add: exI [of _ "[]"])
qed

lemma parse_loop_quiet:
  assumes "int i + int (length fs) \<le> tot"
  shows "\<exists>new. emitted (fst (parse_loop cb parse tot i fs st parsed errors)) = emitted st @ new
               \<and> list_all quiet new"
  using assms
proof (induction fs arbitrary: i st parsed errors)
  case Nil
  have "emitted st = emitted st @ []" by simp
  then show ?case by (simp add: exI [of _ "[]"])
next
  case (Cons f fs)
  let ?st1 = "report cb ''Parser'' (int i) tot None False st"
  from Cons.prems have b: "0 \<le> int i" "int i \<le> tot" by simp_all
  obtain new1 where n1: "emitted ?st1 = emitted st @ new1" "list_all quiet new1"
    using report_quiet [OF b, of "''Parser''" cb None st] by auto
  from Cons.prems have nxt: "int (Suc i) + int (length fs) \<le> tot" by simp
  obtain d e where pf: "parse i f = (d, e)" by (cases "parse i f") auto
  show ?case
  proof (cases "truthy e")
    case True
    obtain new2 where n2:
      "emitted (fst (parse_loop cb parse tot (Suc i) fs ?st1 parsed
                 (errors @ [''Resume '' @ str_nat (i + 1) @ '': '' @ or_empty e])))
         = emitted ?st1 @ new2" "list_all quiet new2"
      using Cons.IH [OF nxt] by blast
    have "emitted (fst (parse_loop cb parse tot i (f # fs) st parsed errors))
            = emitted st @ (new1 @ new2)"
      using True n1 n2 by (simp add: pf Let_def)
    moreover have "list_all quiet (new1 @ new2)" using n1 n2 by simp
    ultimately show ?thesis by blast
  next
    case False
    obtain new2 where n2:
      "emitted (fst (parse_loop cb parse tot (Suc i) fs ?st1 (parsed @ [d]) errors))
         = emitted ?st1 @ new2" "list_all quiet new2"
      using Cons.IH [OF nxt] by blast
    have "emitted (fst (parse_loop cb parse tot i (f # fs) st parsed errors))
            = emitted st @ (new1 @ new2)"
      using False n1 n2 by (simp add: pf Let_def)
    moreover have "list_all quiet (new1 @ new2)" using n1 n2 by simp
    ultimately show ?thesis by blast
  qed
qed

lemma match_loop_quiet:
  assumes "int i + int (length rs) \<le> tot"
  shows "\<exists>new. emitted (fst (match_loop cb fmt1 jr tot i rs st matches errors)) = emitted st @ new
               \<and> list_all quiet new"
  using assms
proof (induction rs arbitrary: i st matches errors)
  case Nil
  show ?case by (simp add: exI [of _ "[]"])
next
  case (Cons r rs)
  let ?st1 = "report cb ''Matcher'' (int i) tot None False st"
  from Cons.prems have b: "0 \<le> int i" "int i \<le> tot" by simp_all
  obtain new1 where n1: "emitted ?st1 = emitted st @ new1" "list_all quiet new1"
    using report_quiet [OF b, of "''Matcher''" cb None st] by auto
  from Cons.prems have nxt: "int (Suc i) + int (length rs) \<le> tot" by simp
  show ?case
  proof (cases "try_match fmt1 r jr")
    case (Inr m)
    obtain new2 where n2:
      "emitted (fst (match_loop cb fmt1 jr tot (Suc i) rs ?st1 (matches @ [m]) errors))
         = emitted ?st1 @ new2" "list_all quiet new2"
      using Cons.IH [OF nxt] by blast
    have "emitted (fst (match_loop cb fmt1 jr tot i (r # rs) st matches errors))
            = emitted st @ (new1 @ new2)"
      using Inr n1 n2 by (simp add: Let_def)
    moreover have "list_all quiet (new1 @ new2)" using n1 n2 by simp
    ultimately show ?thesis by blast
  next
    case (Inl e)
    show ?thesis
    proof (cases r)
      case None
      have "emitted (fst (match_loop cb fmt1 jr tot i (r # rs) st matches errors))
              = emitted st @ new1"
        using Inl None n1 by (simp add: Let_def)
      with n1 show ?thesis by blast
    next
      case (Some res)
      obtain new2 where n2:
        "emitted (fst (match_loop cb fmt1 jr tot (Suc i) rs ?st1 matches
                   (errors @ [''Matching '' @ name res @ '': '' @ str_exn e])))
           = emitted ?st1 @ new2" "list_all quiet new2"
        using Cons.IH [OF nxt] by blast
      have "emitted (fst (match_loop cb fmt1 jr tot i (r # rs) st matches errors))
              = emitted st @ (new1 @ new2)"
        using Inl Some n1 n2 by (simp add: Let_def)
      moreover have "list_all quiet (new1 @ new2)" using n1 n2 by simp
      ultimately show ?thesis by blast
    qed
  qed
qed

lemma parse_loop_silent:
  "\<not> cb \<Longrightarrow> emitted (fst (parse_loop cb parse tot i fs st parsed errors)) = emitted st"
  by (induction fs arbitrary: i st parsed errors)
     (simp_all add: report_emitted Let_def split: prod.splits)

lemma match_loop_silent:
  "\<not> cb \<Longrightarrow> emitted (fst (match_loop cb fmt1 jr tot i rs st matches errors)) = emitted st"
  by (induction rs arbitrary: i st matches errors)
     (simp_all add: report_emitted Let_def split: sum.splits option.splits)

lemma parse_loop_stays_silent:
  assumes "cb \<or> emitted st = []"
      and "parse_loop cb parse tot i fs st parsed errors = (st2, p2, e2)"
  shows "cb \<or> emitted st2 = []"
proof (cases cb)
  case True
  then show ?thesis by simp
next
  case False
  from parse_loop_silent [OF False, of parse tot i fs st parsed errors] assms(2)
  have "emitted st2 = emitted st" by simp
  with assms(1) False show ?thesis by simp
qed

lemma match_loop_stays_silent:
  assumes "cb \<or> emitted st = []"
      and "match_loop cb fmt1 jr tot i rs st matches errors = (st3, r3)"
  shows "cb \<or> emitted st3 = []"
proof (cases cb)
  case True
  then show ?thesis by simp
next
  case False
  from match_loop_silent [OF False, of fmt1 jr tot i rs st matches errors] assms(2)
  have "emitted st3 = emitted st" by simp
  with assms(1) False show ?thesis by simp
qed

lemma quiet_facts:
  assumes "list_all quiet em"
  shows "list_all in_bounds em"
    and "filter is_complete em = []"
    and "\<not> list_ex (\<lambda>s. current_agent s = ''Ranker'') em"
  using assms
  by (auto simp: list_all_iff list_ex_iff quiet_def filter_empty_conv)

lemma report_keeps_quiet:
  assumes "list_all quiet (emitted st)" "0 \<le> p" "p \<le> t" "agent \<noteq> ''Ranker''"
  shows "list_all quiet (emitted (report cb agent p t e False st))"
  using assms(1) quiet_snapshot [OF assms(2-4), of e] by (simp add: report_emitted)

lemma report_keeps_silent:
  assumes "cb \<or> emitted st = []"
  shows "cb \<or> emitted (report cb agent p t e c st) = []"
  using assms by (auto simp: report_emitted)

lemma report_last_error:
  "cb \<longrightarrow> emitted (report cb agent p t (Some m) c st) \<noteq> []
         \<and> error_message (last (emitted (report cb agent p t (Some m) c st))) \<noteq> None"
  by (simp add: report_emitted snapshot_def)

lemma new_runner_emitted: "emitted new_runner = []"
  by (simp add: new_runner_def)

text \<open>The three ways a run can end.\<close>

lemma process_cases:
  fixes cb analyze parse ai fmt1 files jd gen
  defines "run \<equiv> process cb analyze parse ai fmt1 files jd gen"
  shows "(\<exists>msg. snd run = Inr ([], Some msg) \<and> terminal_message msg
            \<and> list_all quiet (emitted (fst run))
            \<and> (cb \<or> emitted (fst run) = [])
            \<and> (cb \<longrightarrow> emitted (fst run) \<noteq> [] \<and> error_message (last (emitted (fst run))) \<noteq> None))
       \<or> (\<exists>e. snd run = Inl e \<and> list_all quiet (emitted (fst run))
            \<and> (cb \<or> emitted (fst run) = []))
       \<or> (\<exists>res err pre. snd run = Inr (res, err) \<and> res \<noteq> [] \<and> list_all quiet pre
            \<and> status (fst run)
                = Some (snapshot ''Complete'' (int (length res)) (int (length res)) None True)
            \<and> emitted (fst run)
                = (if cb then pre @ [snapshot ''Ranker'' 0 (int (length res)) None False,
                                     snapshot ''Complete'' (int (length res)) (int (length res))
                                       None True]
                   else []))"
    (is "?A \<or> ?B \<or> ?C")
proof -
  let ?N = "int (length files)"
  let ?st1 = "report cb ''Analyzer'' 0 ?N None False new_runner"
  obtain jr e0 where a: "analyze jd = (jr, e0)"
    by (cases "analyze jd") auto
  have n0: "(0::int) \<le> 0" "0 \<le> ?N" "?N \<le> ?N" by simp_all
  have na: "''Analyzer'' \<noteq> ''Ranker''" "''Parser'' \<noteq> ''Ranker''" "''Matcher'' \<noteq> ''Ranker''"
    by simp_all
  have q1: "list_all quiet (emitted ?st1)"
    by (rule report_keeps_quiet [OF _ n0(1) n0(2) na(1)]) (simp add: new_runner_emitted)
  have s1: "cb \<or> emitted ?st1 = []"
    by (rule report_keeps_silent) (simp add: new_runner_emitted)
  show ?thesis
  proof (cases "truthy e0")
    case True
    then obtain m0 where m0: "e0 = Some m0"
      by (cases e0) (simp_all add: truthy_def)
    let ?fin = "report cb ''Analyzer'' 0 ?N e0 False ?st1"
    have run: "run = (?fin, Inr ([], Some (''Failed to analyze job description: '' @ or_empty e0)))"
      using True by (simp add: run_def process_def Let_def a)
    have "list_all quiet (emitted ?fin)"
      by (rule report_keeps_quiet [OF q1 n0(1) n0(2) na(1)])
    moreover have "cb \<or> emitted ?fin = []"
      by (rule report_keeps_silent [OF s1])
    moreover have "cb \<longrightarrow> emitted ?fin \<noteq> [] \<and> error_message (last (emitted ?fin)) \<noteq> None"
      unfolding m0 by (rule report_last_error)
    moreover have "terminal_message (''Failed to analyze job description: '' @ or_empty e0)"
      unfolding terminal_message_def by (simp only: prefixI simp_thms)
    ultimately have ?A
      unfolding run by (simp only: fst_conv snd_conv) blast
    then show ?thesis by blast
  next
    case e0: False
    obtain st2 p2 e2 where pl: "parse_loop cb parse ?N 0 files ?st1 [] [] = (st2, p2, e2)"
      by (cases "parse_loop cb parse ?N 0 files ?st1 [] []") auto
    have "int 0 + int (length files) \<le> ?N" by simp
    from parse_loop_quiet [OF this, of cb parse ?st1 "[]" "[]"] pl
    obtain new2 where "emitted st2 = emitted ?st1 @ new2" and "list_all quiet new2"
      by auto
    with q1 have q2: "list_all quiet (emitted st2)"
      by simp
    have s2: "cb \<or> emitted st2 = []"
      by (rule parse_loop_stays_silent [OF s1 pl])
    show ?thesis
    proof (cases "p2 = []")
      case True
      let ?fin = "report cb ''Parser'' ?N ?N (Some ''No resumes could be parsed'') False st2"
      have run: "run = (?fin, Inr ([], Some ''No resumes could be parsed''))"
        using True e0 by (simp add: run_def process_def Let_def a pl)
      have "list_all quiet (emitted ?fin)"
        by (rule report_keeps_quiet [OF q2 n0(2) n0(3) na(2)])
      moreover have "cb \<or> emitted ?fin = []"
        by (rule report_keeps_silent [OF s2])
      moreover have "cb \<longrightarrow> emitted ?fin \<noteq> [] \<and> error_message (last (emitted ?fin)) \<noteq> None"
        by (rule report_last_error)
      moreover have "terminal_message ''No resumes could be parsed''"
        unfolding terminal_message_def by (simp only: simp_thms)
      ultimately have ?A
        unfolding run by (simp only: fst_conv snd_conv) blast
      then show ?thesis by blast
    next
      case p2: False
      let ?M = "int (length p2)"
      obtain st3 r3 where ml: "match_loop cb fmt1 jr ?M 0 p2 st2 [] e2 = (st3, r3)"
        by (cases "match_loop cb fmt1 jr ?M 0 p2 st2 [] e2") auto
      have "int 0 + int (length p2) \<le> ?M" by simp
      from match_loop_quiet [OF this, of cb fmt1 jr st2 "[]" e2] ml
      obtain new3 where "emitted st3 = emitted st2 @ new3" and "list_all quiet new3"
        by auto
      with q2 have q3: "list_all quiet (emitted st3)"
        by simp
      have s3: "cb \<or> emitted st3 = []"
        by (rule match_loop_stays_silent [OF s2 ml])
      have m0: "(0::int) \<le> ?M" "?M \<le> ?M" by simp_all
      show ?thesis
      proof (cases r3)
        case (Inl x)
        have run: "run = (st3, Inl x)"
          using p2 e0 Inl by (simp add: run_def process_def Let_def a pl ml)
        from q3 s3 have ?B
          unfolding run by (simp only: fst_conv snd_conv) blast
        then show ?thesis by blast
      next
        case (Inr mr)
        obtain matches errs where mr: "mr = (matches, errs)"
          by (cases mr) auto
        show ?thesis
        proof (cases "matches = []")
          case True
          let ?fin = "report cb ''Matcher'' ?M ?M (Some ''No candidates could be matched'') False st3"
          have run: "run = (?fin, Inr ([], Some ''No candidates could be matched''))"
            using True p2 e0 Inr mr by (simp add: run_def process_def Let_def a pl ml)
          have "list_all quiet (emitted ?fin)"
            by (rule report_keeps_quiet [OF q3 m0 na(3)])
          moreover have "cb \<or> emitted ?fin = []"
            by (rule report_keeps_silent [OF s3])
          moreover have "cb \<longrightarrow> emitted ?fin \<noteq> [] \<and> error_message (last (emitted ?fin)) \<noteq> None"
            by (rule report_last_error)
          moreover have "terminal_message ''No candidates could be matched''"
            unfolding terminal_message_def by (simp only: simp_thms)
          ultimately have ?A
            unfolding run by (simp only: fst_conv snd_conv) blast
          then show ?thesis by blast
        next
          case False
          let ?res = "rank_candidates ai fmt1 matches gen"
          let ?n = "int (length ?res)"
          let ?fin = "report cb ''Complete'' ?n ?n None True (report cb ''Ranker'' 0 ?n None False st3)"
          have len: "length ?res = length matches"
            by (simp add: rank_candidates_eq)
          have run: "run = (?fin, Inr (?res, error_summary errs))"
            using False p2 e0 Inr mr by (simp add: run_def process_def Let_def a pl ml len)
          have ne: "?res \<noteq> []"
            using False len by (metis length_0_conv)
          have st: "status ?fin = Some (snapshot ''Complete'' ?n ?n None True)"
            by (simp add: report_status)
          have em: "emitted ?fin
                      = (if cb then emitted st3 @ [snapshot ''Ranker'' 0 ?n None False,
                                                    snapshot ''Complete'' ?n ?n None True]
                         else [])"
            using s3 by (auto simp: report_emitted)
          from ne q3 st em have ?C
            unfolding run by (simp only: fst_conv snd_conv) blast
          then show ?thesis by blast
        qed
      qed
    qed
  qed
qed

lemma process_run_contract:
  "run_contract cb (process cb analyze parse ai fmt1 files jd gen)"
proof -
  let ?run = "process cb analyze parse ai fmt1 files jd gen"
  let ?em = "emitted (fst ?run)"
  consider
    (terminal) msg where "snd ?run = Inr ([], Some msg)" "terminal_message msg"
      "list_all quiet ?em" "cb \<or> ?em = []"
      "cb \<longrightarrow> ?em \<noteq> [] \<and> error_message (last ?em) \<noteq> None"
  | (raised) e where "snd ?run = Inl e" "list_all quiet ?em" "cb \<or> ?em = []"
  | (ranked) res err pre where "snd ?run = Inr (res, err)" "res \<noteq> []" "list_all quiet pre"
      "status (fst ?run)
         = Some (snapshot ''Complete'' (int (length res)) (int (length res)) None True)"
      "?em = (if cb then pre @ [snapshot ''Ranker'' 0 (int (length res)) None False,
                                snapshot ''Complete'' (int (length res)) (int (length res))
                                  None True]
              else [])"
    using process_cases [of cb analyze parse ai fmt1 files jd gen] by blast
  then show ?thesis
  proof cases
    case terminal
    from quiet_facts [OF terminal(3)] terminal show ?thesis
      by (simp add: run_contract_def)
  next
    case raised
    from quiet_facts [OF raised(2)] raised show ?thesis
      by (simp add: run_contract_def)
  next
    case ranked
    let ?n = "int (length res)"
    show ?thesis
    proof (cases cb)
      case True
      with ranked(5) have em: "?em = pre @ [snapshot ''Ranker'' 0 ?n None False,
                                            snapshot ''Complete'' ?n ?n None True]"
        by simp
      have b: "list_all in_bounds ?em"
        using quiet_facts(1) [OF ranked(3)] by (simp add: em in_bounds_def snapshot_def)
      have r: "list_ex (\<lambda>s. current_agent s = ''Ranker'') ?em"
        by (simp add: em snapshot_def)
      have c: "filter is_complete ?em = [last ?em]"
        using quiet_facts(2) [OF ranked(3)] by (simp add: em snapshot_def)
      have l: "last ?em = snapshot ''Complete'' ?n ?n None True"
        by (simp add: em)
      from b r c l ranked(1,2,4) True show ?thesis
        by (simp add: run_contract_def)
    next
      case False
      with ranked(5) have "?em = []" by simp
      with ranked(1,2,4) False show ?thesis
        by (simp add: run_contract_def)
    qed
  qed
qed

text \<open>
  C9. In every run of \<open>process\<close> and of \<open>process_from_text\<close>, every emitted snapshot has
  its processed count between 0 and its total count. A run that reaches ranking (it
  returns a non-empty result list) emits, when a callback is supplied, exactly one
  snapshot marked complete: the last one, the Complete snapshot, after a Ranker
  snapshot. A run that ends on a terminal error (it returns the empty list with one of
  the three terminal error strings), or that an exception leaves, emits no snapshot
  marked complete and no Ranker snapshot.
\<close>

theorem emitted_snapshots_contract:
  "run_contract cb (process cb analyze parse ai fmt1 pdf_files jd gen)
   \<and> run_contract cb (process_from_text cb analyze parse_text ai fmt1 resume_texts jd gen)"
  by (simp add: process_from_text_def process_run_contract)

text \<open>Two concrete runs: one that reaches ranking, one that ends in the Parser stage.\<close>

lemma example_run_agents:
  "map current_agent (emitted (fst (process True example_analyze example_parse example_ai
          example_fmt1 [''a'', ''bad'', ''c''] ''Engineer wanted'' False)))
     = [''Analyzer'', ''Parser'', ''Parser'', ''Parser'', ''Matcher'', ''Matcher'', ''Ranker'',
        ''Complete'']"
  by code_simp

lemma example_run_outcome:
  "(case snd (process True example_analyze example_parse example_ai
          example_fmt1 [''a'', ''bad'', ''c''] ''Engineer wanted'' False) of
      Inl e \<Rightarrow> False
    | Inr (res, err) \<Rightarrow> map cand_name res = [''a'', ''c''] \<and> err = Some ''Resume 2: Empty PDF file'')"
  by code_simp

lemma example_terminal_outcome:
  "snd (process True example_analyze example_parse example_ai
          example_fmt1 [''bad''] ''Engineer wanted'' False)
     = Inr ([], Some ''No resumes could be parsed'')
   \<and> map (\<lambda>s. (current_agent s, processed_count s, total_count s, is_complete s, error_message s))
       (emitted (fst (process True example_analyze example_parse example_ai
          example_fmt1 [''bad''] ''Engineer wanted'' False)))
     = [(''Analyzer'', 0, 1, False, None), (''Parser'', 0, 1, False, None),
        (''Parser'', 1, 1, False, Some ''No resumes could be parsed'')]"
  by code_simp

theorem emitted_snapshots_contract_witness:
  "list_all in_bounds (emitted (fst (process True example_analyze example_parse example_ai
          example_fmt1 [''a'', ''bad'', ''c''] ''Engineer wanted'' False)))
   \<and> filter is_complete (emitted (fst (process True example_analyze example_parse example_ai
          example_fmt1 [''a'', ''bad'', ''c''] ''Engineer wanted'' False)))
       = [snapshot ''Complete'' 2 2 None True]
   \<and> last (emitted (fst (process True example_analyze example_parse example_ai
          example_fmt1 [''a'', ''bad'', ''c''] ''Engineer wanted'' False)))
       = snapshot ''Complete'' 2 2 None True
   \<and> filter is_complete (emitted (fst (process True example_analyze example_parse example_ai
          example_fmt1 [''bad''] ''Engineer wanted'' False))) = []"
proof -
  let ?run = "process True example_analyze example_parse example_ai
          example_fmt1 [''a'', ''bad'', ''c''] ''Engineer wanted'' False"
  let ?bad = "process True example_analyze example_parse example_ai
          example_fmt1 [''bad''] ''Engineer wanted'' False"
  obtain res err where out: "snd ?run = Inr (res, err)" and names: "map cand_name res = [''a'', ''c'']"
    using example_run_outcome by (auto split: sum.splits)
  from names have len: "length res = 2"
    by (metis length_map length_Cons list.size(3) numeral_2_eq_2)
  then have ne: "res \<noteq> []" by auto
  have good: "run_contract True ?run"
    using emitted_snapshots_contract [where cb = True and analyze = example_analyze
          and parse = example_parse and ai = example_ai and ?fmt1.0 = example_fmt1
          and pdf_files = "[''a'', ''bad'', ''c'']" and jd = "''Engineer wanted''" and gen = False]
    by blast
  have bad: "run_contract True ?bad"
    using emitted_snapshots_contract [where cb = True and analyze = example_analyze
          and parse = example_parse and ai = example_ai and ?fmt1.0 = example_fmt1
          and pdf_files = "[''bad'']" and jd = "''Engineer wanted''" and gen = False]
    by blast
  have out_bad: "snd ?bad = Inr ([], Some ''No resumes could be parsed'')"
    using example_terminal_outcome by blast
  from good out ne len have
    "list_all in_bounds (emitted (fst ?run))
     \<and> filter is_complete (emitted (fst ?run)) = [snapshot ''Complete'' 2 2 None True]
     \<and> last (emitted (fst ?run)) = snapshot ''Complete'' 2 2 None True"
    by (simp add: run_contract_def)
  moreover from bad out_bad have "filter is_complete (emitted (fst ?bad)) = []"
    by (simp add: run_contract_def)
  ultimately show ?thesis by blast
qed

end
